theory Spec2Isabelle
  imports Complex_Main "HOL-Library.Multiset"
begin

section \<open>Values exchanged with the backend\<close>

text \<open>
  The component \<^verbatim>\<open>App\<close> of \<^verbatim>\<open>frontend/src/App.jsx\<close> stores whatever axios hands it:
  \<^verbatim>\<open>response.data\<close> is the parsed JSON body (or the raw string of a body that is not JSON),
  and a missing property reads as \<^verbatim>\<open>undefined\<close>. An object is the list of its own
  properties in the order they were inserted (for a parsed body: the order of the text),
  each key once.
\<close>

datatype json =
    JUndefined
  | JNull
  | JBool bool
  | JNum real
  | JStr string
  | JArr "json list"
  | JObj "(string \<times> json) list"

text \<open>JavaScript truthiness, as \<^verbatim>\<open>||\<close>, \<^verbatim>\<open>&&\<close> and \<^verbatim>\<open>if\<close> test it.\<close>

fun truthy :: "json \<Rightarrow> bool" where
  "truthy JUndefined = False"
| "truthy JNull = False"
| "truthy (JBool b) = b"
| "truthy (JNum x) = (x \<noteq> 0)"
| "truthy (JStr s) = (s \<noteq> [])"
| "truthy (JArr xs) = True"
| "truthy (JObj kvs) = True"

text \<open>
  Reading a named property \<^verbatim>\<open>v.k\<close> of a value that is neither \<^verbatim>\<open>null\<close> nor
  \<^verbatim>\<open>undefined\<close>: an object yields the property or \<^verbatim>\<open>undefined\<close>; the primitives and
  arrays have none of the names the component reads (\<^verbatim>\<open>error\<close>, \<^verbatim>\<open>metrics\<close>).
\<close>

fun get_prop :: "json \<Rightarrow> string \<Rightarrow> json" where
  "get_prop (JObj kvs) k = (case map_of kvs k of Some v \<Rightarrow> v | None \<Rightarrow> JUndefined)"
| "get_prop v k = JUndefined"

text \<open>Optional chaining \<^verbatim>\<open>v?.k\<close>: \<^verbatim>\<open>undefined\<close> when \<open>v\<close> is \<^verbatim>\<open>null\<close> or \<^verbatim>\<open>undefined\<close>.\<close>

fun get_prop_opt :: "json \<Rightarrow> string \<Rightarrow> json" where
  "get_prop_opt JUndefined k = JUndefined"
| "get_prop_opt JNull k = JUndefined"
| "get_prop_opt v k = get_prop v k"

text \<open>
  What a request comes back with. axios resolves the promise for a status in
  \<open>200..299\<close> and rejects it otherwise, with \<^verbatim>\<open>err.response\<close> set to the response; a
  request that never got a response (network down, timeout) rejects with
  \<^verbatim>\<open>err.response\<close> undefined.
\<close>

datatype http_result = TransportFailure | Response nat json

fun is_2xx :: "nat \<Rightarrow> bool" where
  "is_2xx status = (200 \<le> status \<and> status < 300)"

type_synonym js_file = string

datatype request = MetricsGet string | PredictPost js_file string

section \<open>Component state\<close>

text \<open>The eight \<^verbatim>\<open>useState\<close> cells of \<^verbatim>\<open>App\<close>, with their initial values.\<close>

record app_state =
  selectedFile :: "js_file option"
  previewUrl :: "string option"
  prediction :: json
  loading :: bool
  error :: json
  selectedModel :: string
  evaluationMetrics :: json
  loadingMetrics :: bool

definition initial_state :: app_state where
  "initial_state =
     \<lparr> selectedFile = None, previewUrl = None, prediction = JNull, loading = False,
       error = JStr [], selectedModel = ''vgg16'', evaluationMetrics = JNull,
       loadingMetrics = False \<rparr>"

section \<open>Presentation\<close>

text \<open>
  \<^verbatim>\<open>getConfidenceColor\<close>. A confidence is a number; the comparison of two numbers that
  are not NaN is the comparison of the reals they denote.
\<close>

definition getConfidenceColor :: "real \<Rightarrow> string" where
  "getConfidenceColor confidence =
     (if confidence > 0.8 then ''text-green-600''
      else if confidence > 0.6 then ''text-yellow-600''
      else ''text-red-600'')"

text \<open>The tier a colour class stands for: green is high, yellow is medium, red is low.\<close>

datatype tier = High | Medium | Low

definition confidenceTier :: "real \<Rightarrow> tier" where
  "confidenceTier c =
     (if getConfidenceColor c = ''text-green-600'' then High
      else if getConfidenceColor c = ''text-yellow-600'' then Medium
      else Low)"

text \<open>
  \<^verbatim>\<open>Object.entries\<close> on an object. The own string keys of a JavaScript object are
  enumerated array indices first, in ascending numeric order, then every other key in
  the order of insertion. An array index is the canonical decimal numeral of an integer
  between \<open>0\<close> and \<open>2\<^sup>3\<^sup>2 - 2\<close>: digits only, no leading zero.
\<close>

definition is_digit :: "char \<Rightarrow> bool" where
  "is_digit c = (48 \<le> (of_char c :: nat) \<and> (of_char c :: nat) \<le> 57)"

definition number_of_digits :: "string \<Rightarrow> nat" where
  "number_of_digits k = foldl (\<lambda>n c. 10 * n + ((of_char c :: nat) - 48)) 0 k"

definition is_array_index :: "string \<Rightarrow> bool" where
  "is_array_index k =
     (k \<noteq> [] \<and> list_all is_digit k \<and> (if hd k = CHR ''0'' then k = ''0'' else True) \<and>
      number_of_digits k \<le> 4294967294)"

definition Object_entries :: "(string \<times> json) list \<Rightarrow> (string \<times> json) list" where
  "Object_entries obj =
     sort_key (\<lambda>kv. number_of_digits (fst kv)) (filter (\<lambda>kv. is_array_index (fst kv)) obj) @
     filter (\<lambda>kv. \<not> is_array_index (fst kv)) obj"

text \<open>
  The rows of the panel "Detailed Probabilities":
  \<^verbatim>\<open>Object.entries(prediction.all_predictions).map(([className, prob]) => ...)\<close>, one row
  per entry, showing the class name and its probability.
\<close>

definition orderedProbabilities :: "(string \<times> json) list \<Rightarrow> (string \<times> json) list" where
  "orderedProbabilities all_predictions =
     map (\<lambda>(className, prob). (className, prob)) (Object_entries all_predictions)"

section \<open>File and model selection\<close>

text \<open>
  \<^verbatim>\<open>handleFileSelect\<close>. The event carries \<^verbatim>\<open>event.target.files\<close>; \<^verbatim>\<open>files[0]\<close> of an
  empty list is \<^verbatim>\<open>undefined\<close>, and a File object is truthy. \<open>objectUrl\<close> is what the
  browser's \<^verbatim>\<open>URL.createObjectURL(file)\<close> returns at this call.
\<close>

definition handleFileSelect :: "js_file list \<Rightarrow> string \<Rightarrow> app_state \<Rightarrow> app_state" where
  "handleFileSelect files objectUrl s =
     (case files of
        [] \<Rightarrow> s
      | file # _ \<Rightarrow>
          s\<lparr> selectedFile := Some file, previewUrl := Some objectUrl,
             prediction := JNull, error := JStr [] \<rparr>)"

definition handleModelChange :: "string \<Rightarrow> app_state \<Rightarrow> app_state" where
  "handleModelChange modelType s = s\<lparr> selectedModel := modelType, prediction := JNull \<rparr>"

text \<open>The two buttons of the model toggle and the literal each one passes.\<close>

datatype model_button = CnnButton | Vgg16Button

fun model_button_value :: "model_button \<Rightarrow> string" where
  "model_button_value CnnButton = ''cnn''"
| "model_button_value Vgg16Button = ''vgg16''"

section \<open>Metrics loader\<close>

definition default_metrics :: json where
  "default_metrics =
     JObj [(''accuracy'', JNum 0.90), (''precision'', JNum 0.90),
           (''recall'', JNum 0.89), (''f1_score'', JNum 0.89)]"

text \<open>
  \<^verbatim>\<open>loadMetrics\<close> up to its \<^verbatim>\<open>await\<close>: the spinner is switched on and the request
  leaves.
\<close>

definition loadMetrics :: "string \<Rightarrow> app_state \<Rightarrow> app_state \<times> request list" where
  "loadMetrics modelType s = (s\<lparr> loadingMetrics := True \<rparr>, [MetricsGet modelType])"

text \<open>
  The value \<^verbatim>\<open>loadMetrics\<close> passes to \<^verbatim>\<open>setEvaluationMetrics\<close> once the request has
  settled. The \<^verbatim>\<open>catch\<close> branch runs when axios rejects and when reading
  \<^verbatim>\<open>response.data.metrics\<close> throws, which it does for a body that is \<^verbatim>\<open>null\<close>.
\<close>

fun settled_metrics :: "http_result \<Rightarrow> json" where
  "settled_metrics TransportFailure = default_metrics"
| "settled_metrics (Response status data) =
     (if is_2xx status then
        (if data = JNull \<or> data = JUndefined then default_metrics
         else get_prop data ''metrics'')
      else default_metrics)"

text \<open>
  \<^verbatim>\<open>loadMetrics\<close> after its \<^verbatim>\<open>await\<close>. The continuation still has \<open>modelType\<close> in
  scope and never looks at it.
\<close>

definition loadMetrics_settled :: "string \<Rightarrow> http_result \<Rightarrow> app_state \<Rightarrow> app_state" where
  "loadMetrics_settled modelType result s =
     s\<lparr> evaluationMetrics := settled_metrics result, loadingMetrics := False \<rparr>"

text \<open>The metrics the panel shows: \<^verbatim>\<open>evaluationMetrics || { ... }\<close>.\<close>

definition metrics :: "app_state \<Rightarrow> json" where
  "metrics s = (if truthy (evaluationMetrics s) then evaluationMetrics s else default_metrics)"

text \<open>
  \<^verbatim>\<open>useEffect(() => { loadMetrics(selectedModel) }, [selectedModel])\<close>: after a render
  in which \<open>selectedModel\<close> differs from its value at the previous render the effect
  runs; at the first render it runs unconditionally.
\<close>

definition selectedModel_effect :: "string \<Rightarrow> app_state \<Rightarrow> app_state \<times> request list" where
  "selectedModel_effect previous s =
     (if selectedModel s \<noteq> previous then loadMetrics (selectedModel s) s else (s, []))"

section \<open>Inference requester\<close>

text \<open>\<^verbatim>\<open>handlePredict\<close> up to its \<^verbatim>\<open>await\<close>.\<close>

definition handlePredict :: "app_state \<Rightarrow> app_state \<times> request list" where
  "handlePredict s =
     (case selectedFile s of
        None \<Rightarrow> (s\<lparr> error := JStr ''Please select an image first'' \<rparr>, [])
      | Some file \<Rightarrow>
          (s\<lparr> loading := True, error := JStr [] \<rparr>, [PredictPost file (selectedModel s)]))"

text \<open>
  The message of the \<^verbatim>\<open>catch\<close> branch,
  \<^verbatim>\<open>err.response?.data?.error || 'Failed to make prediction'\<close>; the argument is the
  body of \<^verbatim>\<open>err.response\<close>, or \<open>None\<close> when there is no response.
\<close>

fun predict_error_message :: "json option \<Rightarrow> json" where
  "predict_error_message None = JStr ''Failed to make prediction''"
| "predict_error_message (Some data) =
     (if truthy (get_prop_opt data ''error'') then get_prop_opt data ''error''
      else JStr ''Failed to make prediction'')"

text \<open>\<^verbatim>\<open>handlePredict\<close> after its \<^verbatim>\<open>await\<close>.\<close>

fun handlePredict_settled :: "http_result \<Rightarrow> app_state \<Rightarrow> app_state" where
  "handlePredict_settled TransportFailure s =
     s\<lparr> error := predict_error_message None, loading := False \<rparr>"
| "handlePredict_settled (Response status data) s =
     (if is_2xx status then s\<lparr> prediction := data, loading := False \<rparr>
      else s\<lparr> error := predict_error_message (Some data), loading := False \<rparr>)"

text \<open>
  The button "Analyze Image": \<^verbatim>\<open>onClick={handlePredict}\<close> and
  \<^verbatim>\<open>disabled={loading || !selectedFile}\<close>; a disabled button delivers no click.
\<close>

definition analyzeButton_disabled :: "app_state \<Rightarrow> bool" where
  "analyzeButton_disabled s = (loading s \<or> selectedFile s = None)"

definition analyzeButton_click :: "app_state \<Rightarrow> app_state \<times> request list" where
  "analyzeButton_click s = (if analyzeButton_disabled s then (s, []) else handlePredict s)"

text \<open>
  What the specification asks of a response body before it counts as a success: a
  label, a confidence in \<open>[0,1]\<close> and a non-empty class-probability mapping. The
  component has no such check; the predicate follows the specification's words and
  serves to say so.
\<close>

definition spec_has_label :: "json \<Rightarrow> bool" where
  "spec_has_label body = (case get_prop body ''prediction'' of JStr l \<Rightarrow> True | _ \<Rightarrow> False)"

definition spec_has_confidence :: "json \<Rightarrow> bool" where
  "spec_has_confidence body =
     (case get_prop body ''confidence'' of JNum c \<Rightarrow> 0 \<le> c \<and> c \<le> 1 | _ \<Rightarrow> False)"

definition spec_has_probabilities :: "json \<Rightarrow> bool" where
  "spec_has_probabilities body =
     (case get_prop body ''all_predictions'' of JObj kvs \<Rightarrow> kvs \<noteq> [] | _ \<Rightarrow> False)"

definition spec_valid_prediction :: "json \<Rightarrow> bool" where
  "spec_valid_prediction body =
     (spec_has_label body \<and> spec_has_confidence body \<and> spec_has_probabilities body)"

section \<open>The component as an event-driven machine\<close>

text \<open>
  Everything that can happen to the component, one event at a time (the browser runs
  handlers and promise continuations to completion, never interleaved). A settled
  metrics request carries the \<open>modelType\<close> of the \<^verbatim>\<open>loadMetrics\<close> call it resumes.
\<close>

datatype event =
    Mount
  | FileSelect "js_file list" string
  | ModelChange string
  | ModelButtonClick model_button
  | AnalyzeClick
  | PredictSettled http_result
  | MetricsSettled string http_result

fun step :: "event \<Rightarrow> app_state \<Rightarrow> app_state \<times> request list" where
  "step Mount s = loadMetrics (selectedModel s) s"
| "step (FileSelect files objectUrl) s = (handleFileSelect files objectUrl s, [])"
| "step (ModelChange modelType) s =
     selectedModel_effect (selectedModel s) (handleModelChange modelType s)"
| "step (ModelButtonClick b) s =
     selectedModel_effect (selectedModel s) (handleModelChange (model_button_value b) s)"
| "step AnalyzeClick s = analyzeButton_click s"
| "step (PredictSettled result) s = (handlePredict_settled result s, [])"
| "step (MetricsSettled modelType result) s = (loadMetrics_settled modelType result s, [])"

text \<open>A run returns the final state and the requests issued, in the order of issue.\<close>

fun run :: "event list \<Rightarrow> app_state \<Rightarrow> app_state \<times> request list" where
  "run [] s = (s, [])"
| "run (e # es) s =
     (case step e s of (s1, rs1) \<Rightarrow> (case run es s1 of (s2, rs2) \<Rightarrow> (s2, rs1 @ rs2)))"

fun is_MetricsSettled :: "event \<Rightarrow> bool" where
  "is_MetricsSettled (MetricsSettled modelType result) = True"
| "is_MetricsSettled e = False"

section \<open>Sample states, bodies and runs\<close>

definition state_with_file :: app_state where
  "state_with_file = handleFileSelect [''cell.png''] ''blob:preview-1'' initial_state"

definition loading_state :: app_state where
  "loading_state = fst (handlePredict state_with_file)"

definition no_confidence_body :: json where
  "no_confidence_body =
     JObj [(''prediction'', JStr ''Negative''),
           (''all_predictions'', JObj [(''Negative'', JNum 0.93), (''Low'', JNum 0.07)]),
           (''model_type'', JStr ''vgg16'')]"

definition file_too_large_body :: json where
  "file_too_large_body = JObj [(''error'', JStr ''file too large'')]"

definition misshapen_metrics_body :: json where
  "misshapen_metrics_body = JObj [(''metrics'', JObj [(''acc'', JNum 0.5)])]"

definition cnn_metrics_body :: json where
  "cnn_metrics_body = JObj [(''metrics'', JObj [(''accuracy'', JNum 0.71)])]"

definition vgg16_metrics_body :: json where
  "vgg16_metrics_body = JObj [(''metrics'', JObj [(''accuracy'', JNum 0.95)])]"

text \<open>
  The component mounts and asks for the metrics of \<open>vgg16\<close>; the user switches to
  \<open>cnn\<close>; the answer for \<open>cnn\<close> arrives first, the answer for \<open>vgg16\<close> last.
\<close>

definition overtaken_run :: "event list" where
  "overtaken_run =
     [Mount, ModelChange ''cnn'',
      MetricsSettled ''cnn'' (Response 200 cnn_metrics_body),
      MetricsSettled ''vgg16'' (Response 200 vgg16_metrics_body)]"

definition named_probabilities :: "(string \<times> json) list" where
  "named_probabilities =
     [(''Negative'', JNum 0.93), (''Low'', JNum 0.05), (''High'', JNum 0.01),
      (''Carcinoma'', JNum 0.01)]"

definition numbered_probabilities :: "(string \<times> json) list" where
  "numbered_probabilities = [(''1'', JNum 0.3), (''0'', JNum 0.7)]"

text \<open>A state that holds a prediction: the request for \<open>cell.png\<close> has succeeded.\<close>

definition state_with_prediction :: app_state where
  "state_with_prediction =
     handlePredict_settled (Response 200 no_confidence_body) loading_state"

definition mixed_probabilities :: "(string \<times> json) list" where
  "mixed_probabilities =
     [(''b'', JNum 0.1), (''10'', JNum 0.2), (''2'', JNum 0.3), (''a'', JNum 0.4)]"

section \<open>Runs\<close>

lemma run_append:
  "run (es @ es') s =
     (case run es s of (s1, rs1) \<Rightarrow> (case run es' s1 of (s2, rs2) \<Rightarrow> (s2, rs1 @ rs2)))"
  by (induction es arbitrary: s) (auto split: prod.splits)

text \<open>Only a settled metrics request writes \<open>evaluationMetrics\<close>.\<close>

lemma step_keeps_metrics:
  "\<not> is_MetricsSettled e \<Longrightarrow> evaluationMetrics (fst (step e s)) = evaluationMetrics s"
proof (cases e)
  case (PredictSettled result)
  then show ?thesis by (cases result) simp_all
qed (auto simp: loadMetrics_def handleFileSelect_def selectedModel_effect_def
      handleModelChange_def analyzeButton_click_def handlePredict_def
      split: list.splits option.splits)

lemma run_keeps_metrics:
  "list_all (\<lambda>e. \<not> is_MetricsSettled e) es \<Longrightarrow>
   evaluationMetrics (fst (run es s)) = evaluationMetrics s"
proof (induction es arbitrary: s)
  case Nil
  then show ?case by simp
next
  case (Cons e es)
  have "evaluationMetrics (fst (step e s)) = evaluationMetrics s"
    using Cons.prems step_keeps_metrics by simp
  moreover have
    "evaluationMetrics (fst (run es (fst (step e s)))) = evaluationMetrics (fst (step e s))"
    using Cons by simp
  ultimately show ?case by (simp split: prod.splits) (metis fst_conv)
qed

section \<open>Array indices\<close>

text \<open>
  Two array indices with the same numeric value are the same string, so the numeric
  order of the index keys of an object is strict.
\<close>

lemma number_of_digits_snoc:
  "number_of_digits (xs @ [c]) = 10 * number_of_digits xs + ((of_char c :: nat) - 48)"
  by (simp add: number_of_digits_def)

lemma number_of_digits_upper:
  "list_all is_digit xs \<Longrightarrow> number_of_digits xs < 10 ^ length xs"
proof (induction xs rule: rev_induct)
  case Nil
  then show ?case by (simp add: number_of_digits_def)
next
  case (snoc c xs)
  then have "number_of_digits xs < 10 ^ length xs" and "(of_char c :: nat) - 48 < 10"
    by (auto simp: is_digit_def)
  then show ?case by (simp add: number_of_digits_snoc)
qed

lemma number_of_digits_lower:
  "list_all is_digit xs \<Longrightarrow> xs \<noteq> [] \<Longrightarrow> hd xs \<noteq> CHR ''0'' \<Longrightarrow>
   10 ^ (length xs - 1) \<le> number_of_digits xs"
proof (induction xs rule: rev_induct)
  case Nil
  then show ?case by simp
next
  case (snoc c xs)
  show ?case
  proof (cases "xs = []")
    case True
    have "(of_char c :: nat) \<noteq> 48"
    proof
      assume "(of_char c :: nat) = 48"
      then have "(of_char c :: nat) = of_char CHR ''0''" by simp
      then have "c = CHR ''0''" by (simp only: of_char_eq_iff)
      with snoc.prems True show False by simp
    qed
    moreover have "48 \<le> (of_char c :: nat)" using snoc.prems by (simp add: is_digit_def)
    ultimately show ?thesis using True by (simp add: number_of_digits_snoc number_of_digits_def)
  next
    case False
    then have "10 ^ (length xs - 1) \<le> number_of_digits xs"
      using snoc by simp
    then have "10 * 10 ^ (length xs - 1) \<le> 10 * number_of_digits xs" by simp
    moreover have "10 * 10 ^ (length xs - 1) = (10::nat) ^ length xs"
      using False by (cases xs) simp_all
    ultimately show ?thesis by (simp add: number_of_digits_snoc)
  qed
qed

lemma digit_pair_eq:
  assumes "10 * a + (c - 48) = 10 * b + (d - 48)"
    and "48 \<le> c" "c \<le> 57" "48 \<le> d" "d \<le> (57::nat)"
  shows "a = b \<and> c = d"
proof -
  have e: "c - 48 < 10" "d - 48 < 10"
    using assms(3,5) by simp_all
  have "(10 * a + (c - 48)) div 10 = a" and "(10 * b + (d - 48)) div 10 = b"
    using e by simp_all
  then have ab: "a = b"
    using assms(1) by metis
  then have "c - 48 = d - 48"
    using assms(1) by simp
  then have "c = d"
    using assms(2,4) by simp
  with ab show ?thesis by simp
qed

lemma number_of_digits_same_length:
  "list_all is_digit xs \<Longrightarrow> list_all is_digit ys \<Longrightarrow> length xs = length ys \<Longrightarrow>
   number_of_digits xs = number_of_digits ys \<Longrightarrow> xs = ys"
proof (induction xs arbitrary: ys rule: rev_induct)
  case Nil
  then show ?case by simp
next
  case (snoc c xs)
  from snoc.prems(3) obtain d zs where ys: "ys = zs @ [d]"
    by (cases ys rule: rev_cases) simp_all
  have dig: "is_digit c" "is_digit d" "list_all is_digit xs" "list_all is_digit zs"
    using snoc.prems(1,2) ys by simp_all
  have len: "length xs = length zs"
    using snoc.prems(3) ys by simp
  have eq: "10 * number_of_digits xs + ((of_char c :: nat) - 48) =
            10 * number_of_digits zs + ((of_char d :: nat) - 48)"
    using snoc.prems(4) unfolding ys number_of_digits_snoc .
  have "number_of_digits xs = number_of_digits zs \<and> (of_char c :: nat) = of_char d"
    using eq dig(1,2) unfolding is_digit_def by (intro digit_pair_eq) simp_all
  then have "xs = zs" and "c = d"
    using snoc.IH [OF dig(3,4) len] by (simp_all only: of_char_eq_iff)
  with ys show ?case by simp
qed

lemma array_index_inj:
  assumes "is_array_index k" "is_array_index k'" "number_of_digits k = number_of_digits k'"
  shows "k = k'"
proof -
  have less: False
    if a: "is_array_index x" "is_array_index y" "number_of_digits x = number_of_digits y"
      and l: "length x < length y" for x y
  proof -
    have dx: "list_all is_digit x" and dy: "list_all is_digit y" and ny: "y \<noteq> []"
      using a by (auto simp: is_array_index_def)
    have "hd y \<noteq> CHR ''0''"
    proof
      assume "hd y = CHR ''0''"
      then have "y = ''0''" using a(2) by (simp add: is_array_index_def)
      moreover have "x \<noteq> []" using a(1) by (simp add: is_array_index_def)
      ultimately show False using l by (cases x) simp_all
    qed
    then have "10 ^ (length y - 1) \<le> number_of_digits y"
      using number_of_digits_lower dy ny by blast
    moreover have "number_of_digits x < 10 ^ length x"
      using number_of_digits_upper dx by blast
    moreover have "(10::nat) ^ length x \<le> 10 ^ (length y - 1)"
      using l by (intro power_increasing) simp_all
    ultimately show False using a(3) by linarith
  qed
  consider "length k < length k'" | "length k' < length k" | "length k = length k'"
    by linarith
  then show ?thesis
  proof cases
    case 1
    then show ?thesis using less [of k k'] assms by simp
  next
    case 2
    then show ?thesis using less [of k' k] assms by simp
  next
    case 3
    then show ?thesis
      using number_of_digits_same_length assms by (auto simp: is_array_index_def)
  qed
qed

lemma index_part_strict:
  assumes "distinct (map fst obj)"
  shows "sorted_wrt (<) (map (\<lambda>kv. number_of_digits (fst kv))
     (filter (\<lambda>kv. is_array_index (fst kv)) (Object_entries obj)))"
proof -
  let ?xs = "filter (\<lambda>kv. is_array_index (fst kv)) obj"
  let ?f = "\<lambda>kv. number_of_digits (fst kv)"
  have ip: "filter (\<lambda>kv. is_array_index (fst kv)) (Object_entries obj) = sort_key ?f ?xs"
    by (simp add: Object_entries_def filter_sort)
  have "distinct (map fst ?xs)" using assms by (simp add: distinct_map_filter)
  moreover have "inj_on number_of_digits (set (map fst ?xs))"
    by (rule inj_onI) (auto dest: array_index_inj)
  ultimately have "distinct (map number_of_digits (map fst ?xs))"
    by (simp only: distinct_map)
  then have "distinct (map ?f ?xs)" by (simp add: comp_def)
  moreover have "mset (map ?f (sort_key ?f ?xs)) = mset (map ?f ?xs)" by simp
  ultimately have "distinct (map ?f (sort_key ?f ?xs))"
    by (metis mset_eq_imp_distinct_iff)
  moreover have "sorted (map ?f (sort_key ?f ?xs))" by simp
  ultimately show ?thesis unfolding ip by (simp add: strict_sorted_iff)
qed

lemma Object_entries_index_part:
  "filter (\<lambda>kv. is_array_index (fst kv)) (Object_entries obj) =
     sort_key (\<lambda>kv. number_of_digits (fst kv)) (filter (\<lambda>kv. is_array_index (fst kv)) obj)"
  by (simp add: Object_entries_def filter_sort)

section \<open>Confidence tiers\<close>

text \<open>
  C1. For every confidence \<open>c\<close> the tier is high exactly when \<open>c > 0.8\<close>, medium exactly
  when \<open>0.6 < c \<le> 0.8\<close> and low exactly when \<open>c \<le> 0.6\<close>; the boundary values
  \<open>0.8\<close> and \<open>0.6\<close> fall into the lower tier. The same holds of the colour classes the
  source returns.
\<close>

theorem confidenceTier_boundaries:
  "(confidenceTier c = High) = (c > 0.8) \<and>
   (confidenceTier c = Medium) = (0.6 < c \<and> c \<le> 0.8) \<and>
   (confidenceTier c = Low) = (c \<le> 0.6) \<and>
   (getConfidenceColor c = ''text-green-600'') = (c > 0.8) \<and>
   (getConfidenceColor c = ''text-yellow-600'') = (0.6 < c \<and> c \<le> 0.8) \<and>
   (getConfidenceColor c = ''text-red-600'') = (c \<le> 0.6) \<and>
   confidenceTier 0.8 = Medium \<and> confidenceTier 0.6 = Low"
  by (simp add: confidenceTier_def getConfidenceColor_def)

section \<open>Submitting\<close>

text \<open>
  C2, as the code has it. \<^verbatim>\<open>handlePredict\<close> with no file selected sets the error
  "Please select an image first" and issues no request; with a file selected it issues
  exactly one request, whether or not a request is already loading. What keeps a second
  request from leaving is the button: it is disabled while loading or without a file,
  and a click on it then changes nothing and issues nothing.
\<close>

theorem handlePredict_requests:
  "(selectedFile s = None \<longrightarrow>
      handlePredict s = (s\<lparr> error := JStr ''Please select an image first'' \<rparr>, [])) \<and>
   (selectedFile s = Some f \<longrightarrow>
      handlePredict s =
        (s\<lparr> loading := True, error := JStr [] \<rparr>, [PredictPost f (selectedModel s)])) \<and>
   (loading s \<or> selectedFile s = None \<longrightarrow> analyzeButton_click s = (s, [])) \<and>
   (\<not> loading s \<and> selectedFile s = Some f \<longrightarrow> analyzeButton_click s = handlePredict s)"
  by (simp add: handlePredict_def analyzeButton_click_def analyzeButton_disabled_def)

theorem handlePredict_requests_witness:
  "selectedFile initial_state = None \<and>
   handlePredict initial_state =
     (initial_state\<lparr> error := JStr ''Please select an image first'' \<rparr>, []) \<and>
   analyzeButton_click initial_state = (initial_state, []) \<and>
   loading loading_state \<and> analyzeButton_click loading_state = (loading_state, []) \<and>
   \<not> loading state_with_file \<and> selectedFile state_with_file = Some ''cell.png'' \<and>
   analyzeButton_click state_with_file =
     (state_with_file\<lparr> loading := True, error := JStr [] \<rparr>,
      [PredictPost ''cell.png'' ''vgg16''])"
  using handlePredict_requests [of initial_state]
    handlePredict_requests [of loading_state]
    handlePredict_requests [of state_with_file "''cell.png''"]
  by (simp add: loading_state_def state_with_file_def handlePredict_def handleFileSelect_def
      initial_state_def)

text \<open>
  The claim as written fails on \<^verbatim>\<open>handlePredict\<close>: called while a request is loading,
  with a file selected, it issues another request.
\<close>

theorem submit_while_loading_counterexample:
  "loading loading_state \<and> selectedFile loading_state = Some ''cell.png'' \<and>
   snd (handlePredict loading_state) = [PredictPost ''cell.png'' ''vgg16'']"
  by (simp add: loading_state_def state_with_file_def handlePredict_def handleFileSelect_def
      initial_state_def)

section \<open>Responses with status 2xx\<close>

text \<open>
  C3, as the code has it. For every response with a status in \<open>200..299\<close>, whatever its
  body, \<^verbatim>\<open>handlePredict\<close> stores the body as the prediction and switches loading off;
  the error stays the empty string that the submit set. No body is inspected.
\<close>

theorem handlePredict_settled_2xx:
  "is_2xx status \<Longrightarrow>
   handlePredict_settled (Response status data) s =
     s\<lparr> prediction := data, loading := False \<rparr> \<and>
   (selectedFile s \<noteq> None \<longrightarrow>
      error (handlePredict_settled (Response status data) (fst (handlePredict s))) = JStr [])"
  by (auto simp: handlePredict_def)

theorem handlePredict_settled_2xx_witness:
  "is_2xx 200 \<and> selectedFile state_with_file \<noteq> None \<and>
   handlePredict_settled (Response 200 no_confidence_body) state_with_file =
     state_with_file\<lparr> prediction := no_confidence_body, loading := False \<rparr> \<and>
   error (handlePredict_settled (Response 200 no_confidence_body)
     (fst (handlePredict state_with_file))) = JStr []"
proof -
  have a: "is_2xx 200" by simp
  have b: "selectedFile state_with_file \<noteq> None"
    by (simp add: state_with_file_def handleFileSelect_def)
  show ?thesis
    using a b handlePredict_settled_2xx [OF a, of no_confidence_body state_with_file] by blast
qed

text \<open>
  The claim as written fails: a body with status 200 and no \<^verbatim>\<open>confidence\<close> becomes the
  prediction, and no error is set.
\<close>

theorem malformed_body_accepted_counterexample:
  "\<not> spec_has_confidence no_confidence_body \<and> \<not> spec_valid_prediction no_confidence_body \<and>
   prediction (handlePredict_settled (Response 200 no_confidence_body) loading_state) =
     no_confidence_body \<and>
   error (handlePredict_settled (Response 200 no_confidence_body) loading_state) = JStr [] \<and>
   loading (handlePredict_settled (Response 200 no_confidence_body) loading_state) = False"
  by (simp add: spec_valid_prediction_def spec_has_confidence_def no_confidence_body_def
      loading_state_def state_with_file_def handlePredict_def handleFileSelect_def
      initial_state_def)

section \<open>Failed inference requests\<close>

text \<open>
  C4. A failed inference request (a status outside \<open>200..299\<close>, or no response at all)
  leaves as error the server's \<^verbatim>\<open>error\<close> field verbatim when the body carries one, and
  "Failed to make prediction" otherwise. The body carries one when the field is truthy
  (the code joins the two with \<^verbatim>\<open>||\<close>): a non-empty string in particular. A body with
  no \<^verbatim>\<open>error\<close> field, a body that is not an object and a transport error get the
  fallback.
\<close>

theorem predict_failure_message:
  "\<not> is_2xx status \<Longrightarrow>
   (truthy (get_prop_opt data ''error'') \<longrightarrow>
      error (handlePredict_settled (Response status data) s) = get_prop_opt data ''error'') \<and>
   (\<not> truthy (get_prop_opt data ''error'') \<longrightarrow>
      error (handlePredict_settled (Response status data) s) =
        JStr ''Failed to make prediction'') \<and>
   (map_of kvs ''error'' = Some (JStr m) \<and> m \<noteq> [] \<longrightarrow>
      error (handlePredict_settled (Response status (JObj kvs)) s) = JStr m) \<and>
   (map_of kvs ''error'' = None \<longrightarrow>
      error (handlePredict_settled (Response status (JObj kvs)) s) =
        JStr ''Failed to make prediction'') \<and>
   error (handlePredict_settled TransportFailure s) = JStr ''Failed to make prediction''"
  by auto

theorem predict_failure_message_witness:
  "\<not> is_2xx 400 \<and>
   error (handlePredict_settled (Response 400 file_too_large_body) loading_state) =
     JStr ''file too large'' \<and>
   error (handlePredict_settled (Response 500 (JObj [])) loading_state) =
     JStr ''Failed to make prediction'' \<and>
   error (handlePredict_settled (Response 502 (JStr ''Bad Gateway'')) loading_state) =
     JStr ''Failed to make prediction'' \<and>
   error (handlePredict_settled TransportFailure loading_state) =
     JStr ''Failed to make prediction''"
proof -
  have a: "\<not> is_2xx 400" and b: "\<not> is_2xx 500" and c: "\<not> is_2xx 502" by simp_all
  show ?thesis
    using a
      predict_failure_message [OF a, of "JObj []" loading_state
        "[(''error'', JStr ''file too large'')]" "''file too large''"]
      predict_failure_message [OF b, of "JObj []" loading_state "[]" "[]"]
      predict_failure_message [OF c, of "JStr ''Bad Gateway''" loading_state "[]" "[]"]
    by (simp add: file_too_large_body_def)
qed

section \<open>Metrics fallback\<close>

text \<open>
  C5, as the code has it. A metrics request that is rejected (no response, or a status
  outside \<open>200..299\<close>) or whose 2xx body is \<^verbatim>\<open>null\<close> sets \<open>evaluationMetrics\<close> to the
  default accuracy 0.90, precision 0.90, recall 0.89, f1_score 0.89. Any other 2xx body
  is not validated: its \<^verbatim>\<open>metrics\<close> property is stored as it is. The panel shows the
  default whenever the stored value is falsy. No outcome touches the error.
\<close>

theorem loadMetrics_fallback:
  "(\<not> is_2xx status \<longrightarrow>
      evaluationMetrics (loadMetrics_settled modelType (Response status data) s) =
        default_metrics) \<and>
   evaluationMetrics (loadMetrics_settled modelType TransportFailure s) = default_metrics \<and>
   (is_2xx status \<and> (data = JNull \<or> data = JUndefined) \<longrightarrow>
      evaluationMetrics (loadMetrics_settled modelType (Response status data) s) =
        default_metrics) \<and>
   (is_2xx status \<and> data \<noteq> JNull \<and> data \<noteq> JUndefined \<longrightarrow>
      evaluationMetrics (loadMetrics_settled modelType (Response status data) s) =
        get_prop data ''metrics'') \<and>
   (\<not> truthy (evaluationMetrics s) \<longrightarrow> metrics s = default_metrics) \<and>
   error (loadMetrics_settled modelType result s) = error s \<and>
   default_metrics =
     JObj [(''accuracy'', JNum 0.90), (''precision'', JNum 0.90),
           (''recall'', JNum 0.89), (''f1_score'', JNum 0.89)]"
  by (simp add: loadMetrics_settled_def default_metrics_def metrics_def)

theorem loadMetrics_fallback_witness:
  "\<not> is_2xx 500 \<and>
   evaluationMetrics (loadMetrics_settled ''cnn'' (Response 500 (JObj [])) state_with_file) =
     JObj [(''accuracy'', JNum 0.90), (''precision'', JNum 0.90),
           (''recall'', JNum 0.89), (''f1_score'', JNum 0.89)] \<and>
   error (loadMetrics_settled ''cnn'' (Response 500 (JObj [])) state_with_file) =
     error state_with_file \<and>
   is_2xx 200 \<and>
   evaluationMetrics (loadMetrics_settled ''cnn'' (Response 200 JNull) state_with_file) =
     default_metrics \<and>
   evaluationMetrics
     (loadMetrics_settled ''cnn'' (Response 200 cnn_metrics_body) state_with_file) =
     JObj [(''accuracy'', JNum 0.71)] \<and>
   \<not> truthy (evaluationMetrics initial_state) \<and> metrics initial_state = default_metrics"
  using
    loadMetrics_fallback [of 500 "''cnn''" "JObj []" state_with_file "Response 500 (JObj [])"]
    loadMetrics_fallback [of 200 "''cnn''" JNull state_with_file]
    loadMetrics_fallback [of 200 "''cnn''" cnn_metrics_body state_with_file]
    loadMetrics_fallback [of 200 "''cnn''" JNull initial_state]
  by (simp add: cnn_metrics_body_def initial_state_def)

text \<open>
  The claim as written fails for a malformed body: a 200 whose \<^verbatim>\<open>metrics\<close> object has
  none of the expected fields is stored and shown, not replaced by the default.
\<close>

theorem misshapen_metrics_counterexample:
  "evaluationMetrics
     (loadMetrics_settled ''cnn'' (Response 200 misshapen_metrics_body) initial_state) =
     JObj [(''acc'', JNum 0.5)] \<and>
   evaluationMetrics
     (loadMetrics_settled ''cnn'' (Response 200 misshapen_metrics_body) initial_state) \<noteq>
     default_metrics \<and>
   metrics (loadMetrics_settled ''cnn'' (Response 200 misshapen_metrics_body) initial_state) \<noteq>
     default_metrics"
  by (simp add: loadMetrics_settled_def misshapen_metrics_body_def default_metrics_def
      metrics_def)

section \<open>Order of metrics responses\<close>

text \<open>
  C6, as the code has it. Mounting issues one metrics request for the current model, and
  a model change issues exactly one for the new model when it differs from the current
  one (none when it is the same). Requests carry no sequence stamp: after any run, the
  metrics state is the result of the request that settled last, whichever request that
  is. The last resolution wins, not the last issue.
\<close>

theorem metrics_last_resolution_wins:
  "snd (step (ModelChange modelType) s) =
     (if modelType \<noteq> selectedModel s then [MetricsGet modelType] else []) \<and>
   snd (step Mount s) = [MetricsGet (selectedModel s)] \<and>
   (list_all (\<lambda>e. \<not> is_MetricsSettled e) es' \<longrightarrow>
      evaluationMetrics (fst (run (es @ MetricsSettled m r # es') s)) = settled_metrics r)"
proof -
  have "evaluationMetrics (fst (run (es @ MetricsSettled m r # es') s)) = settled_metrics r"
    if "list_all (\<lambda>e. \<not> is_MetricsSettled e) es'"
    using run_keeps_metrics [OF that, of "loadMetrics_settled m r (fst (run es s))"]
    by (simp add: run_append loadMetrics_settled_def split: prod.splits) (metis fst_conv)
  then show ?thesis
    by (simp add: selectedModel_effect_def handleModelChange_def loadMetrics_def)
qed

theorem metrics_last_resolution_wins_witness:
  "list_all (\<lambda>e. \<not> is_MetricsSettled e) [AnalyzeClick] \<and>
   evaluationMetrics (fst (run ([Mount, ModelChange ''cnn'',
      MetricsSettled ''cnn'' (Response 200 cnn_metrics_body)] @
      MetricsSettled ''vgg16'' (Response 200 vgg16_metrics_body) # [AnalyzeClick])
      initial_state)) = JObj [(''accuracy'', JNum 0.95)] \<and>
   snd (step (ModelChange ''cnn'') initial_state) = [MetricsGet ''cnn''] \<and>
   snd (step (ModelChange ''vgg16'') initial_state) = []"
  using
    metrics_last_resolution_wins [of "''cnn''" initial_state "[AnalyzeClick]"
      "[Mount, ModelChange ''cnn'', MetricsSettled ''cnn'' (Response 200 cnn_metrics_body)]"
      "''vgg16''" "Response 200 vgg16_metrics_body"]
    metrics_last_resolution_wins [of "''vgg16''" initial_state "[]" "[]" "''vgg16''"
      TransportFailure]
  by (simp add: vgg16_metrics_body_def initial_state_def)

text \<open>
  The claim as written fails: the request for \<open>vgg16\<close> is issued first and settles last,
  and its result replaces that of the request for \<open>cnn\<close>, issued after it, while
  \<open>cnn\<close> is the selected model.
\<close>

theorem stale_metrics_applied_counterexample:
  "snd (run overtaken_run initial_state) = [MetricsGet ''vgg16'', MetricsGet ''cnn''] \<and>
   selectedModel (fst (run overtaken_run initial_state)) = ''cnn'' \<and>
   evaluationMetrics (fst (run overtaken_run initial_state)) =
     get_prop vgg16_metrics_body ''metrics'' \<and>
   evaluationMetrics (fst (run overtaken_run initial_state)) \<noteq>
     get_prop cnn_metrics_body ''metrics''"
  by (simp add: overtaken_run_def initial_state_def loadMetrics_def selectedModel_effect_def
      handleModelChange_def loadMetrics_settled_def vgg16_metrics_body_def
      cnn_metrics_body_def)

section \<open>Selecting a file or a model\<close>

text \<open>
  C7, as the code has it. Selecting a file (an event that carries one) and changing the
  model both clear the prediction, in every state and so in every state that holds one.
  Selecting the same file again changes \<open>previewUrl\<close> and nothing else: the file, the
  cleared prediction, the cleared error and the rest of the state stay as the first
  selection left them, and the preview URL becomes the one the browser hands out at
  the second selection. \<^verbatim>\<open>URL.createObjectURL\<close> returns a new URL at every call, so
  the two states differ.
\<close>

theorem selection_clears_prediction:
  "prediction (handleFileSelect (file # files) objectUrl s) = JNull \<and>
   prediction (fst (step (FileSelect (file # files) objectUrl) s)) = JNull \<and>
   prediction (handleModelChange modelType s) = JNull \<and>
   prediction (fst (step (ModelChange modelType) s)) = JNull \<and>
   prediction (fst (step (ModelButtonClick b) s)) = JNull \<and>
   handleFileSelect (file # files) objectUrl' (handleFileSelect (file # files) objectUrl s) =
     (handleFileSelect (file # files) objectUrl s)\<lparr> previewUrl := Some objectUrl' \<rparr> \<and>
   (objectUrl' \<noteq> objectUrl \<longrightarrow>
      handleFileSelect (file # files) objectUrl'
        (handleFileSelect (file # files) objectUrl s) \<noteq>
      handleFileSelect (file # files) objectUrl s)"
proof -
  have "previewUrl (handleFileSelect (file # files) objectUrl'
          (handleFileSelect (file # files) objectUrl s)) = Some objectUrl'"
    and "previewUrl (handleFileSelect (file # files) objectUrl s) = Some objectUrl"
    by (simp_all add: handleFileSelect_def)
  then have "objectUrl' \<noteq> objectUrl \<longrightarrow>
      handleFileSelect (file # files) objectUrl'
        (handleFileSelect (file # files) objectUrl s) \<noteq>
      handleFileSelect (file # files) objectUrl s"
    by (metis option.inject)
  then show ?thesis
    by (simp add: handleFileSelect_def handleModelChange_def selectedModel_effect_def
        loadMetrics_def)
qed

theorem selection_clears_prediction_witness:
  "truthy (prediction state_with_prediction) \<and>
   prediction (handleFileSelect [''cell.png''] ''blob:preview-2'' state_with_prediction) =
     JNull \<and>
   prediction (handleModelChange ''cnn'' state_with_prediction) = JNull \<and>
   ''blob:preview-3'' \<noteq> ''blob:preview-2'' \<and>
   handleFileSelect [''cell.png''] ''blob:preview-3''
     (handleFileSelect [''cell.png''] ''blob:preview-2'' state_with_prediction) =
     (handleFileSelect [''cell.png''] ''blob:preview-2'' state_with_prediction)
       \<lparr> previewUrl := Some ''blob:preview-3'' \<rparr>"
proof -
  have a: "truthy (prediction state_with_prediction)"
    by (simp add: state_with_prediction_def no_confidence_body_def)
  have b: "''blob:preview-3'' \<noteq> ''blob:preview-2''" by simp
  show ?thesis
    using a b
      selection_clears_prediction [of "''cell.png''" "[]" "''blob:preview-2''"
        state_with_prediction "''cnn''" CnnButton "''blob:preview-3''"]
    by blast
qed

text \<open>
  The claim as written fails in its last part: from a state that holds a prediction,
  the second selection of \<open>cell.png\<close> does not give the state the first one gave; the
  preview URLs differ.
\<close>

theorem reselected_file_counterexample:
  "truthy (prediction state_with_prediction) \<and>
   previewUrl (handleFileSelect [''cell.png''] ''blob:preview-2'' state_with_prediction) =
     Some ''blob:preview-2'' \<and>
   previewUrl (handleFileSelect [''cell.png''] ''blob:preview-3''
     (handleFileSelect [''cell.png''] ''blob:preview-2'' state_with_prediction)) =
     Some ''blob:preview-3'' \<and>
   handleFileSelect [''cell.png''] ''blob:preview-3''
     (handleFileSelect [''cell.png''] ''blob:preview-2'' state_with_prediction) \<noteq>
     handleFileSelect [''cell.png''] ''blob:preview-2'' state_with_prediction"
proof -
  have a: "truthy (prediction state_with_prediction)"
    by (simp add: state_with_prediction_def no_confidence_body_def)
  have b: "previewUrl
      (handleFileSelect [''cell.png''] ''blob:preview-2'' state_with_prediction) =
     Some ''blob:preview-2''"
    by (simp add: handleFileSelect_def)
  have c: "previewUrl (handleFileSelect [''cell.png''] ''blob:preview-3''
     (handleFileSelect [''cell.png''] ''blob:preview-2'' state_with_prediction)) =
     Some ''blob:preview-3''"
    by (simp add: handleFileSelect_def)
  have "Some ''blob:preview-3'' \<noteq> Some ''blob:preview-2''" by simp
  with b c have "handleFileSelect [''cell.png''] ''blob:preview-3''
     (handleFileSelect [''cell.png''] ''blob:preview-2'' state_with_prediction) \<noteq>
     handleFileSelect [''cell.png''] ''blob:preview-2'' state_with_prediction"
    by metis
  with a b c show ?thesis by blast
qed

text \<open>
  C8, as the code has it. \<^verbatim>\<open>handleModelChange\<close> validates nothing: for every value it
  stores the value as the selected model and clears the prediction, and a metrics
  request for it leaves when it differs from the current model; the error is not
  touched. The two buttons of the toggle pass \<open>cnn\<close> and \<open>vgg16\<close> and nothing else.
\<close>

theorem handleModelChange_any_value:
  "handleModelChange modelType s = s\<lparr> selectedModel := modelType, prediction := JNull \<rparr> \<and>
   step (ModelChange modelType) s =
     (if modelType \<noteq> selectedModel s
      then (s\<lparr> selectedModel := modelType, prediction := JNull, loadingMetrics := True \<rparr>,
            [MetricsGet modelType])
      else (s\<lparr> prediction := JNull \<rparr>, [])) \<and>
   error (fst (step (ModelChange modelType) s)) = error s \<and>
   step (ModelButtonClick b) s = step (ModelChange (model_button_value b)) s \<and>
   (model_button_value b = ''cnn'' \<or> model_button_value b = ''vgg16'')"
  by (cases b) (auto simp: handleModelChange_def selectedModel_effect_def loadMetrics_def)

text \<open>
  The claim as written fails: a value outside the set becomes the selected model and a
  metrics request for it is issued.
\<close>

theorem unknown_model_accepted_counterexample:
  "''resnet50'' \<noteq> model_button_value CnnButton \<and>
   ''resnet50'' \<noteq> model_button_value Vgg16Button \<and>
   selectedModel (fst (step (ModelChange ''resnet50'') initial_state)) = ''resnet50'' \<and>
   selectedModel initial_state = ''vgg16'' \<and>
   snd (step (ModelChange ''resnet50'') initial_state) = [MetricsGet ''resnet50'']"
  by (simp add: initial_state_def handleModelChange_def selectedModel_effect_def
      loadMetrics_def)

text \<open>
  C10. A file-select event that carries no file leaves the whole state as it was and
  issues nothing.
\<close>

theorem handleFileSelect_no_file:
  "handleFileSelect [] objectUrl s = s \<and> step (FileSelect [] objectUrl) s = (s, [])"
  by (simp add: handleFileSelect_def)

section \<open>Order of the probability rows\<close>

text \<open>
  C9, as the code has it. For every class-probability mapping none of whose labels is an
  array index, the rows are the entries of the mapping in insertion order. In general
  the rows are the entries whose labels are array indices, in ascending numeric order
  (strictly ascending, the keys of an object being distinct; entries of equal value
  would keep their insertion order), followed by the other entries in insertion order;
  no entry is lost or added.
\<close>

theorem orderedProbabilities_insertion_order:
  "(list_all (\<lambda>kv. \<not> is_array_index (fst kv)) all_predictions \<longrightarrow>
      orderedProbabilities all_predictions = all_predictions) \<and>
   orderedProbabilities all_predictions =
     filter (\<lambda>kv. is_array_index (fst kv)) (orderedProbabilities all_predictions) @
     filter (\<lambda>kv. \<not> is_array_index (fst kv)) all_predictions \<and>
   sorted (map (\<lambda>kv. number_of_digits (fst kv))
     (filter (\<lambda>kv. is_array_index (fst kv)) (orderedProbabilities all_predictions))) \<and>
   (distinct (map fst all_predictions) \<longrightarrow>
      sorted_wrt (<) (map (\<lambda>kv. number_of_digits (fst kv))
        (filter (\<lambda>kv. is_array_index (fst kv)) (orderedProbabilities all_predictions)))) \<and>
   mset (filter (\<lambda>kv. is_array_index (fst kv)) (orderedProbabilities all_predictions)) =
     mset (filter (\<lambda>kv. is_array_index (fst kv)) all_predictions) \<and>
   filter (\<lambda>kv. number_of_digits (fst kv) = n)
       (filter (\<lambda>kv. is_array_index (fst kv)) (orderedProbabilities all_predictions)) =
     filter (\<lambda>kv. number_of_digits (fst kv) = n)
       (filter (\<lambda>kv. is_array_index (fst kv)) all_predictions) \<and>
   filter (\<lambda>kv. \<not> is_array_index (fst kv)) (orderedProbabilities all_predictions) =
     filter (\<lambda>kv. \<not> is_array_index (fst kv)) all_predictions \<and>
   mset (orderedProbabilities all_predictions) = mset all_predictions"
proof -
  have op: "orderedProbabilities all_predictions = Object_entries all_predictions"
    by (simp add: orderedProbabilities_def)
  have 1: "list_all (\<lambda>kv. \<not> is_array_index (fst kv)) all_predictions \<longrightarrow>
      Object_entries all_predictions = all_predictions"
    by (auto simp: Object_entries_def list_all_iff)
  have 2: "Object_entries all_predictions =
     filter (\<lambda>kv. is_array_index (fst kv)) (Object_entries all_predictions) @
     filter (\<lambda>kv. \<not> is_array_index (fst kv)) all_predictions"
    unfolding Object_entries_index_part by (simp add: Object_entries_def)
  have 3: "sorted (map (\<lambda>kv. number_of_digits (fst kv))
     (filter (\<lambda>kv. is_array_index (fst kv)) (Object_entries all_predictions)))"
    unfolding Object_entries_index_part by simp
  have 4: "distinct (map fst all_predictions) \<longrightarrow>
      sorted_wrt (<) (map (\<lambda>kv. number_of_digits (fst kv))
        (filter (\<lambda>kv. is_array_index (fst kv)) (Object_entries all_predictions)))"
    using index_part_strict by blast
  have 5: "mset (filter (\<lambda>kv. is_array_index (fst kv)) (Object_entries all_predictions)) =
     mset (filter (\<lambda>kv. is_array_index (fst kv)) all_predictions)"
    unfolding Object_entries_index_part by simp
  have 6: "filter (\<lambda>kv. number_of_digits (fst kv) = n)
       (filter (\<lambda>kv. is_array_index (fst kv)) (Object_entries all_predictions)) =
     filter (\<lambda>kv. number_of_digits (fst kv) = n)
       (filter (\<lambda>kv. is_array_index (fst kv)) all_predictions)"
    unfolding Object_entries_index_part by (rule sort_key_stable)
  have 7: "filter (\<lambda>kv. \<not> is_array_index (fst kv)) (Object_entries all_predictions) =
     filter (\<lambda>kv. \<not> is_array_index (fst kv)) all_predictions"
    by (simp add: Object_entries_def filter_sort)
  have 8: "mset (Object_entries all_predictions) = mset all_predictions"
    by (simp add: Object_entries_def)
  from 1 2 3 4 5 6 7 8 show ?thesis unfolding op by blast
qed

theorem orderedProbabilities_insertion_order_witness:
  "list_all (\<lambda>kv. \<not> is_array_index (fst kv)) named_probabilities \<and>
   orderedProbabilities named_probabilities =
     [(''Negative'', JNum 0.93), (''Low'', JNum 0.05), (''High'', JNum 0.01),
      (''Carcinoma'', JNum 0.01)] \<and>
   distinct (map fst mixed_probabilities) \<and>
   sorted_wrt (<) (map (\<lambda>kv. number_of_digits (fst kv))
     (filter (\<lambda>kv. is_array_index (fst kv)) (orderedProbabilities mixed_probabilities))) \<and>
   orderedProbabilities mixed_probabilities =
     [(''2'', JNum 0.3), (''10'', JNum 0.2), (''b'', JNum 0.1), (''a'', JNum 0.4)]"
proof -
  have a: "list_all (\<lambda>kv. \<not> is_array_index (fst kv)) named_probabilities"
    by (simp add: named_probabilities_def is_array_index_def is_digit_def)
  have b: "distinct (map fst mixed_probabilities)"
    by (simp add: mixed_probabilities_def)
  have c: "orderedProbabilities mixed_probabilities =
     [(''2'', JNum 0.3), (''10'', JNum 0.2), (''b'', JNum 0.1), (''a'', JNum 0.4)]"
    by (simp add: orderedProbabilities_def mixed_probabilities_def Object_entries_def
        is_array_index_def is_digit_def number_of_digits_def)
  have d: "orderedProbabilities named_probabilities = named_probabilities"
    using a orderedProbabilities_insertion_order [of named_probabilities] by blast
  have e: "sorted_wrt (<) (map (\<lambda>kv. number_of_digits (fst kv))
     (filter (\<lambda>kv. is_array_index (fst kv)) (orderedProbabilities mixed_probabilities)))"
    using b orderedProbabilities_insertion_order [of mixed_probabilities] by blast
  from a b c d e show ?thesis by (simp add: named_probabilities_def)
qed

text \<open>
  The claim as written fails for labels that are array indices: inserted as \<open>1\<close> then
  \<open>0\<close>, they are shown as \<open>0\<close> then \<open>1\<close>.
\<close>

theorem numbered_labels_reordered_counterexample:
  "orderedProbabilities numbered_probabilities = [(''0'', JNum 0.7), (''1'', JNum 0.3)] \<and>
   numbered_probabilities = [(''1'', JNum 0.3), (''0'', JNum 0.7)] \<and>
   orderedProbabilities numbered_probabilities \<noteq> numbered_probabilities"
  by (simp add: orderedProbabilities_def numbered_probabilities_def Object_entries_def
      is_array_index_def is_digit_def number_of_digits_def)

end
